theory Spec2Isabelle
  imports Complex_Main "HOL-Library.Log_Nat"
begin

section \<open>Python values used by pdf\_to\_jsonl\_ocr\_v4.py\<close>

text \<open>
  Page text, table cells and recognized text are Python \<open>str\<close> values: sequences of
  Unicode code points, modelled as lists of natural numbers. Option names, language
  tags, file paths and exception messages are modelled as \<open>string\<close>.
  A Python float is modelled as the rational number it denotes. Every arithmetic
  operation on floats rounds its exact result to binary64, to nearest, a tie going to
  the even significand (\<open>to_double\<close>); comparisons are exact. Infinities and NaN are
  not modelled: the numbers stand for finite binary64 values, and the properties of the
  coverage are stated for pages whose coordinates lie in the single-precision range of
  MuPDF's rectangles, where no operation of the diagnostics overflows.
\<close>

type_synonym unicode = "nat list"

text \<open>
  The exceptions of the modelled code: the division of \<open>preflight\<close>, the
  \<open>RuntimeError\<close> of \<open>open_document\<close> (its message asks for the right password),
  and an exception leaving the unguarded \<open>with open(...)\<close> block that writes a table
  (\<open>LookupError\<close> for an unknown encoding, \<open>UnicodeEncodeError\<close>, \<open>OSError\<close>),
  with its message.
\<close>

datatype py_error = ZeroDivisionError | RuntimeError | WriteError string

text \<open>
  \<open>ch.isspace()\<close> for a single code point: the white-space table of CPython
  (U+0009..U+000D, U+001C..U+0020, U+0085, U+00A0, U+1680, U+2000..U+200A, U+2028,
  U+2029, U+202F, U+205F, U+3000).
\<close>

definition py_isspace :: "nat \<Rightarrow> bool" where
  "py_isspace c =
     ((9 \<le> c \<and> c \<le> 13) \<or> (28 \<le> c \<and> c \<le> 32) \<or> c = 133 \<or> c = 160 \<or> c = 5760 \<or>
      (8192 \<le> c \<and> c \<le> 8202) \<or> c = 8232 \<or> c = 8233 \<or> c = 8239 \<or> c = 8287 \<or>
      c = 12288)"

text \<open>\<open>s.strip()\<close>: leading and trailing white space removed.\<close>

definition py_strip :: "unicode \<Rightarrow> unicode" where
  "py_strip s = rev (dropWhile py_isspace (rev (dropWhile py_isspace s)))"

text \<open>\<open>sum(1 for ch in s if not ch.isspace())\<close>\<close>

definition count_non_ws :: "unicode \<Rightarrow> nat" where
  "count_non_ws s = length (filter (\<lambda>ch. \<not> py_isspace ch) s)"

text \<open>To the nearest integer, a tie going to the even one.\<close>

definition round_half_even :: "rat \<Rightarrow> int" where
  "round_half_even x =
     (let f = \<lfloor>x\<rfloor>; d = x - of_int f in
      if d < 1 / 2 then f
      else if 1 / 2 < d then f + 1
      else if even f then f else f + 1)"

text \<open>
  The binary exponent of a number other than zero: the \<open>e\<close> with
  \<open>2\<^sup>e \<le> |x| < 2\<^sup>e\<^sup>+\<^sup>1\<close>, from the bit length of the integer part, or of the
  reciprocal when \<open>|x| < 1\<close>.
\<close>

definition binade :: "rat \<Rightarrow> int" where
  "binade x =
     (let a = \<bar>x\<bar> in
      if 1 \<le> a then bitlen \<lfloor>a\<rfloor> - 1
      else - bitlen (\<lceil>1 / a\<rceil> - 1))"

text \<open>
  Rounding to binary64: a significand of 53 bits, so the result is the multiple of
  \<open>2\<^sup>e\<^sup>-\<^sup>5\<^sup>2\<close> nearest to \<open>x\<close>, a tie going to the even multiple; below the
  smallest normal exponent \<open>-1022\<close> the spacing stays \<open>2\<^sup>-\<^sup>1\<^sup>0\<^sup>7\<^sup>4\<close> (subnormal
  numbers).
\<close>

definition to_double :: "rat \<Rightarrow> rat" where
  "to_double x =
     (if x = 0 then 0
      else (let ulp = 2 powi (max (binade x) (- 1022) - 52)
            in of_int (round_half_even (x / ulp)) * ulp))"

text \<open>\<open>a - b\<close>, \<open>a * b\<close>, \<open>a + b\<close> on floats.\<close>

definition float_sub :: "rat \<Rightarrow> rat \<Rightarrow> rat" where
  "float_sub a b = to_double (a - b)"

definition float_mul :: "rat \<Rightarrow> rat \<Rightarrow> rat" where
  "float_mul a b = to_double (a * b)"

definition float_add :: "rat \<Rightarrow> rat \<Rightarrow> rat" where
  "float_add a b = to_double (a + b)"

text \<open>
  \<open>round(x, 4)\<close> on a float: CPython rounds the exact value of \<open>x\<close> to the nearest
  multiple of \<open>10\<^sup>-\<^sup>4\<close>, a tie going to the even multiple, and returns the float
  nearest to that decimal.
\<close>

definition py_round4 :: "rat \<Rightarrow> rat" where
  "py_round4 x = to_double (of_int (round_half_even (x * 10000)) / 10000)"

text \<open>
  \<open>a / b\<close> on floats raises \<open>ZeroDivisionError\<close> when \<open>b\<close> is zero, and is the
  rounded quotient otherwise.
\<close>

definition py_truediv :: "rat \<Rightarrow> rat \<Rightarrow> py_error + rat" where
  "py_truediv a b = (if b = 0 then Inl ZeroDivisionError else Inr (to_double (a / b)))"

text \<open>\<open>str(n)\<close> for a non-negative integer, as the f-strings of the file names use it.\<close>

fun str_nat :: "nat \<Rightarrow> string" where
  "str_nat n =
     (if n < 10 then [''0123456789'' ! n]
      else str_nat (n div 10) @ [''0123456789'' ! (n mod 10)])"

declare str_nat.simps [simp del]

text \<open>\<open>os.path.join(a, b)\<close> and \<open>os.path.dirname(p)\<close> of \<open>posixpath\<close>.\<close>

definition path_join :: "string \<Rightarrow> string \<Rightarrow> string" where
  "path_join a b =
     (if b \<noteq> [] \<and> hd b = CHR ''/'' then b
      else if a = [] \<or> last a = CHR ''/'' then a @ b
      else a @ ''/'' @ b)"

definition dirname :: "string \<Rightarrow> string" where
  "dirname p =
     (let head = rev (dropWhile (\<lambda>c. c \<noteq> CHR ''/'') (rev p)) in
      if head \<noteq> [] \<and> \<not> list_all (\<lambda>c. c = CHR ''/'') head
      then rev (dropWhile (\<lambda>c. c = CHR ''/'') (rev head))
      else head)"

section \<open>The converter object and its surroundings\<close>

text \<open>
  The fields \<open>__init__\<close> stores on \<open>PDFToJSONLConverterOCRv4\<close> that the conversion
  reads.
\<close>

record config =
  ocr_mode :: string
  ocr_lang :: string
  ocr_dpi :: int
  ocr_rotate :: string
  ocr_psm :: int
  ocr_oem :: int
  th_nonws :: int
  th_coverage :: rat
  csv_encoding :: string
  table_dir :: string
  ocr_dir :: string
  password :: "string option"

text \<open>
  What the process sees outside the converter: whether the imports of \<open>pytesseract\<close>
  and \<open>PIL.Image\<close> succeeded, the module-level
  \<open>pytesseract.pytesseract.tesseract_cmd\<close>, \<open>os.environ\<close>, the file system tests
  \<open>os.path.exists\<close> and \<open>os.path.isdir\<close>, \<open>shutil.which\<close> (true when it
  finds the command), and what writing a table does: \<open>csv_write path encoding rows\<close>
  is \<open>None\<close> when opening \<open>path\<close> for writing with \<open>encoding\<close> and writing
  \<open>rows\<close> through \<open>csv.writer\<close> returns, and the message of the exception when
  one of them raises.
\<close>

record system =
  pytesseract_loaded :: bool
  pil_loaded :: bool
  tesseract_cmd :: string
  environ :: "string \<rightharpoonup> string"
  fs_exists :: "string \<Rightarrow> bool"
  fs_isdir :: "string \<Rightarrow> bool"
  shutil_which :: "string \<Rightarrow> bool"
  csv_write :: "string \<Rightarrow> string \<Rightarrow> unicode list list \<Rightarrow> string option"

text \<open>
  A block of \<open>page.get_text("rawdict")\<close>: its \<open>type\<close> (0 text, 1 image) and its
  \<open>bbox\<close> \<open>(x0, y0, x1, y1)\<close>, either of which \<open>b.get\<close> may find absent.
  A page: the native text \<open>page.get_text()\<close>, the blocks of the raw dictionary
  (\<open>None\<close> when the result is not a dictionary or has no \<open>blocks\<close>; both read as the
  empty list), and \<open>page.rect.width\<close>, \<open>page.rect.height\<close>.
\<close>

record block =
  block_type :: "int option"
  bbox :: "(rat \<times> rat \<times> rat \<times> rat) option"

record page =
  get_text :: unicode
  raw_blocks :: "block list option"
  rect_width :: rat
  rect_height :: rat

record document =
  needs_pass :: bool
  is_encrypted :: bool
  permissions :: int
  authenticate :: "string \<Rightarrow> bool"
  doc_pages :: "page list"

section \<open>Preflight diagnostics\<close>

record page_diag =
  diag_page :: nat
  has_text_block :: bool
  non_ws_chars :: nat
  image_block_coverage :: rat

record preflight_info =
  info_encrypted :: bool
  info_needs_pass :: bool
  info_permissions :: int
  info_pages :: "page_diag list"

text \<open>
  The inner loop of \<open>preflight\<close>:
  \<^verbatim>\<open>
  img_area = 0.0
  for b in blocks:
      if b.get("type") == 1:
          x0, y0, x1, y1 = b.get("bbox", (0, 0, 0, 0))
          img_area += max(0, (x1 - x0)) * max(0, (y1 - y0))
  \<close>
\<close>

fun img_area_loop :: "rat \<Rightarrow> block list \<Rightarrow> rat" where
  "img_area_loop img_area [] = img_area"
| "img_area_loop img_area (b # bs) =
     (if block_type b = Some 1
      then (case (case bbox b of None \<Rightarrow> (0, 0, 0, 0) | Some r \<Rightarrow> r) of
              (x0, y0, x1, y1) \<Rightarrow>
                img_area_loop
                  (float_add img_area
                     (float_mul (max 0 (float_sub x1 x0)) (max 0 (float_sub y1 y0)))) bs)
      else img_area_loop img_area bs)"

text \<open>\<open>page_area = float(page.rect.width * page.rect.height) or 1.0\<close>\<close>

definition page_area :: "page \<Rightarrow> rat" where
  "page_area p =
     (let a = float_mul (rect_width p) (rect_height p) in if a = 0 then 1 else a)"

definition page_blocks :: "page \<Rightarrow> block list" where
  "page_blocks p = (case raw_blocks p of None \<Rightarrow> [] | Some bs \<Rightarrow> bs)"

text \<open>The body of the page loop of \<open>preflight\<close>, for page number \<open>i\<close>.\<close>

definition preflight_page :: "nat \<Rightarrow> page \<Rightarrow> py_error + page_diag" where
  "preflight_page i p =
     (let blocks = page_blocks p;
          has_text = list_ex (\<lambda>b. block_type b = Some 0) blocks;
          text_plain = py_strip (get_text p);
          non_ws = count_non_ws text_plain;
          img_area = img_area_loop 0 blocks
      in case py_truediv img_area (page_area p) of
           Inl e \<Rightarrow> Inl e
         | Inr coverage \<Rightarrow>
             Inr \<lparr>diag_page = i, has_text_block = has_text, non_ws_chars = non_ws,
                  image_block_coverage = py_round4 coverage\<rparr>)"

text \<open>\<open>for i, page in enumerate(doc, start=1)\<close>, appending one entry per page.\<close>

fun preflight_loop :: "nat \<Rightarrow> page list \<Rightarrow> py_error + page_diag list" where
  "preflight_loop i [] = Inr []"
| "preflight_loop i (p # ps) =
     (case preflight_page i p of
        Inl e \<Rightarrow> Inl e
      | Inr d \<Rightarrow>
          (case preflight_loop (Suc i) ps of
             Inl e \<Rightarrow> Inl e
           | Inr ds \<Rightarrow> Inr (d # ds)))"

definition preflight :: "document \<Rightarrow> py_error + preflight_info" where
  "preflight doc =
     (case preflight_loop 1 (doc_pages doc) of
        Inl e \<Rightarrow> Inl e
      | Inr ds \<Rightarrow>
          Inr \<lparr>info_encrypted = is_encrypted doc, info_needs_pass = needs_pass doc,
               info_permissions = permissions doc, info_pages = ds\<rparr>)"

section \<open>Tesseract path detection\<close>

text \<open>
  Windows paths contain the backslash, written here as the character of code 0x5C.
\<close>

definition win_path :: "string list \<Rightarrow> string" where
  "win_path parts = concat (map (\<lambda>part. if part = ''C:'' then part else CHR 0x5C # part) parts)"

definition windows_common_paths :: "string list" where
  "windows_common_paths =
     [win_path [''C:'', ''Program Files'', ''Tesseract-OCR'', ''tesseract.exe''],
      win_path [''C:'', ''Program Files (x86)'', ''Tesseract-OCR'', ''tesseract.exe'']]"

definition unix_common_paths :: "string list" where
  "unix_common_paths =
     [''/opt/homebrew/bin/tesseract'', ''/usr/local/bin/tesseract'', ''/usr/bin/tesseract'']"

text \<open>Python truth of an optional string: \<open>None\<close> and \<open>""\<close> are false.\<close>

definition truthy :: "string option \<Rightarrow> bool" where
  "truthy v = (case v of None \<Rightarrow> False | Some s \<Rightarrow> s \<noteq> [])"

text \<open>\<open>a or b\<close> on optional strings.\<close>

definition py_or :: "string option \<Rightarrow> string option \<Rightarrow> string option" where
  "py_or a b = (if truthy a then a else b)"

text \<open>
  \<^verbatim>\<open>
  env_cmd = os.environ.get("TESSERACT_CMD") or os.environ.get("TESSERACT_EXE")
  candidates = []
  if env_cmd: candidates.append(env_cmd)
  if tesseract_cmd: candidates.append(tesseract_cmd)
  candidates += [Windows common paths]
  candidates += [mac / Linux common paths]
  \<close>
\<close>

definition env_cmd :: "system \<Rightarrow> string option" where
  "env_cmd sys = py_or (environ sys ''TESSERACT_CMD'') (environ sys ''TESSERACT_EXE'')"

definition candidates :: "system \<Rightarrow> string option \<Rightarrow> string list" where
  "candidates sys cmd_arg =
     (if truthy (env_cmd sys) then [the (env_cmd sys)] else []) @
     (if truthy cmd_arg then [the cmd_arg] else []) @
     windows_common_paths @ unix_common_paths"

text \<open>
  \<^verbatim>\<open>
  for c in candidates:
      if c and os.path.exists(c):
          pytesseract.pytesseract.tesseract_cmd = c
          tdir = os.path.dirname(c)
          tessdata = os.path.join(tdir, "tessdata")
          if os.path.isdir(tessdata) and not os.environ.get("TESSDATA_PREFIX"):
              os.environ["TESSDATA_PREFIX"] = tdir
          break
  \<close>
\<close>

fun candidate_loop :: "system \<Rightarrow> string list \<Rightarrow> system" where
  "candidate_loop sys [] = sys"
| "candidate_loop sys (c # cs) =
     (if c \<noteq> [] \<and> fs_exists sys c
      then (let tdir = dirname c; tessdata = path_join tdir ''tessdata'' in
            if fs_isdir sys tessdata \<and> \<not> truthy (environ sys ''TESSDATA_PREFIX'')
            then sys\<lparr>tesseract_cmd := c,
                     environ := (environ sys)(''TESSDATA_PREFIX'' \<mapsto> tdir)\<rparr>
            else sys\<lparr>tesseract_cmd := c\<rparr>)
      else candidate_loop sys cs)"

definition configure_tesseract :: "system \<Rightarrow> string option \<Rightarrow> system" where
  "configure_tesseract sys cmd_arg =
     (if \<not> pytesseract_loaded sys then sys
      else candidate_loop sys (candidates sys cmd_arg))"

section \<open>OCR of one page\<close>

text \<open>
  The dictionary \<open>meta\<close> of \<open>ocr_page\<close>; \<open>meta0\<close> is its initial value. The
  dictionary \<open>{"used": False}\<close> that \<open>convert_pdf\<close> starts from answers every
  \<open>.get\<close> the same way as \<open>meta0\<close>.
\<close>

record ocr_meta =
  meta_used :: bool
  meta_lang :: "string option"
  meta_dpi :: "int option"
  meta_txt :: "string option"
  meta_tsv :: "string option"
  meta_hocr :: "string option"
  meta_error :: "string option"

definition meta0 :: ocr_meta where
  "meta0 = \<lparr>meta_used = False, meta_lang = None, meta_dpi = None, meta_txt = None,
            meta_tsv = None, meta_hocr = None, meta_error = None\<rparr>"

text \<open>
  What the library calls inside the \<open>try\<close> block do on a page (rendering, the
  best-effort rotation, the three recognition calls, writing the three files): one of
  them raises an exception whose \<open>str(e)\<close> is the message, or all succeed and
  \<open>image_to_string\<close> returned the text.
\<close>

datatype engine_run = EngineRaised string | EngineText unicode

definition ocr_file :: "config \<Rightarrow> nat \<Rightarrow> string \<Rightarrow> string" where
  "ocr_file cfg page_num ext = path_join (ocr_dir cfg) (''page'' @ str_nat page_num @ ext)"

text \<open>
  The \<open>try\<close> block of \<open>ocr_page\<close>: \<open>Inl\<close> is an exception that reaches the
  \<open>except\<close> clause. \<open>_page_to_image\<close> returns \<open>None\<close> when \<open>Image\<close> is absent.
\<close>

definition ocr_try :: "config \<Rightarrow> system \<Rightarrow> nat \<Rightarrow> engine_run \<Rightarrow> string + (unicode \<times> ocr_meta)" where
  "ocr_try cfg sys page_num run =
     (if \<not> pil_loaded sys
      then Inr ([], meta0\<lparr>meta_error := Some ''failed_to_render_page_image''\<rparr>)
      else (case run of
              EngineRaised msg \<Rightarrow> Inl msg
            | EngineText txt \<Rightarrow>
                Inr (py_strip txt,
                     meta0\<lparr>meta_used := True, meta_lang := Some (ocr_lang cfg),
                           meta_dpi := Some (ocr_dpi cfg),
                           meta_txt := Some (ocr_file cfg page_num ''.txt''),
                           meta_tsv := Some (ocr_file cfg page_num ''.tsv''),
                           meta_hocr := Some (ocr_file cfg page_num ''.hocr'')\<rparr>)))"

definition ocr_page :: "config \<Rightarrow> system \<Rightarrow> nat \<Rightarrow> engine_run \<Rightarrow> unicode \<times> ocr_meta" where
  "ocr_page cfg sys page_num run =
     (if \<not> pytesseract_loaded sys \<or> \<not> pil_loaded sys
      then ([], meta0\<lparr>meta_error := Some ''pytesseract_or_pillow_not_available''\<rparr>)
      else if \<not> shutil_which sys (tesseract_cmd sys) \<and> \<not> fs_exists sys (tesseract_cmd sys)
      then ([], meta0\<lparr>meta_error := Some ''tesseract_not_found''\<rparr>)
      else (case ocr_try cfg sys page_num run of
              Inl msg \<Rightarrow> ([], meta0\<lparr>meta_error := Some msg\<rparr>)
            | Inr r \<Rightarrow> r))"

section \<open>Tables\<close>

text \<open>
  A candidate table of \<open>page.extract_tables\<close>: rows of cells, a cell a string or
  \<open>None\<close>. What is written with \<open>csv.writer\<close>: rows of strings.
\<close>

type_synonym table = "unicode option list list"

type_synonym csv_rows = "unicode list list"

text \<open>\<open>cleaned = [(cell if cell is not None else "") for cell in row]\<close>\<close>

definition clean_row :: "unicode option list \<Rightarrow> unicode list" where
  "clean_row row = map (\<lambda>cell. case cell of None \<Rightarrow> [] | Some s \<Rightarrow> s) row"

text \<open>\<open>any(c.strip() for c in cleaned)\<close>: some cell is non-empty once stripped.\<close>

definition any_stripped :: "unicode list \<Rightarrow> bool" where
  "any_stripped cleaned = list_ex (\<lambda>c. py_strip c \<noteq> []) cleaned"

text \<open>
  \<^verbatim>\<open>
  cleaned_rows = []
  for row in table:
      cleaned = ...
      if any(...): cleaned_rows.append(cleaned)
  \<close>
\<close>

fun cleaned_rows_loop :: "csv_rows \<Rightarrow> table \<Rightarrow> csv_rows" where
  "cleaned_rows_loop cleaned_rows [] = cleaned_rows"
| "cleaned_rows_loop cleaned_rows (row # rows) =
     (let cleaned = clean_row row in
      if any_stripped cleaned then cleaned_rows_loop (cleaned_rows @ [cleaned]) rows
      else cleaned_rows_loop cleaned_rows rows)"

definition table_file :: "config \<Rightarrow> nat \<Rightarrow> nat \<Rightarrow> string" where
  "table_file cfg i k =
     path_join (table_dir cfg) (''page'' @ str_nat i @ ''_table'' @ str_nat k @ ''.csv'')"

text \<open>
  The loop over the tables of one strategy. \<open>saved\<close> holds the files written so far
  for the page, each with its rows; \<open>saved_paths\<close> of the source is \<open>map fst saved\<close>.
  \<^verbatim>\<open>
  if not cleaned_rows:
      continue
  table_file = os.path.join(self.table_dir, f"page{i}_table{len(saved_paths)+1}.csv")
  with open(table_file, 'w', newline='', encoding=self.csv_encoding) as csvfile:
      writer = csv.writer(csvfile)
      writer.writerows(cleaned_rows)
  saved_paths.append(table_file)
  \<close>
  The write stands in no \<open>try\<close>: an exception of it leaves the loop, the passes
  around it and \<open>convert_pdf\<close>. What is on disk after an exception is not modelled.
\<close>

fun table_loop :: "config \<Rightarrow> system \<Rightarrow> nat \<Rightarrow> (string \<times> csv_rows) list \<Rightarrow> table list \<Rightarrow>
    py_error + (string \<times> csv_rows) list" where
  "table_loop cfg sys i saved [] = Inr saved"
| "table_loop cfg sys i saved (t # ts) =
     (let cleaned_rows = cleaned_rows_loop [] t in
      if cleaned_rows = [] then table_loop cfg sys i saved ts
      else (let table_path = table_file cfg i (length saved + 1) in
            case csv_write sys table_path (csv_encoding cfg) cleaned_rows of
              Some msg \<Rightarrow> Inl (WriteError msg)
            | None \<Rightarrow> table_loop cfg sys i (saved @ [(table_path, cleaned_rows)]) ts))"

text \<open>
  A strategy's call \<open>page.extract_tables(table_settings=settings)\<close> returns tables or
  raises (\<open>Inl\<close>, with the message); the \<open>except\<close> clause reads a raise as no table.
\<close>

type_synonym strategy_result = "string + table list"

definition page_tables :: "strategy_result \<Rightarrow> table list" where
  "page_tables r = (case r of Inl msg \<Rightarrow> [] | Inr ts \<Rightarrow> ts)"

text \<open>
  The body of the page loop of \<open>extract_and_save_tables\<close>:
  \<open>for settings in (lattice_settings, stream_settings)\<close>, on one \<open>saved_paths\<close>.
\<close>

definition save_page_tables :: "config \<Rightarrow> system \<Rightarrow> nat \<Rightarrow> strategy_result \<Rightarrow> strategy_result \<Rightarrow>
    py_error + (string \<times> csv_rows) list" where
  "save_page_tables cfg sys i lattice stream =
     (case table_loop cfg sys i [] (page_tables lattice) of
        Inl e \<Rightarrow> Inl e
      | Inr saved \<Rightarrow> table_loop cfg sys i saved (page_tables stream))"

text \<open>
  \<open>extract_and_save_tables\<close>: the dictionary \<open>tables\<close> and the files written, over
  the pages of \<open>pdfplumber\<close>, each given by what its two strategies do.
\<close>

fun tables_loop :: "config \<Rightarrow> system \<Rightarrow> nat \<Rightarrow> (nat \<rightharpoonup> string list) \<times> (string \<times> csv_rows) list \<Rightarrow>
    (strategy_result \<times> strategy_result) list \<Rightarrow>
    py_error + (nat \<rightharpoonup> string list) \<times> (string \<times> csv_rows) list" where
  "tables_loop cfg sys i acc [] = Inr acc"
| "tables_loop cfg sys i (tables, files) ((lattice, stream) # ps) =
     (case save_page_tables cfg sys i lattice stream of
        Inl e \<Rightarrow> Inl e
      | Inr saved \<Rightarrow>
          tables_loop cfg sys (Suc i) (tables(i \<mapsto> map fst saved), files @ saved) ps)"

definition extract_and_save_tables :: "config \<Rightarrow> system \<Rightarrow> (strategy_result \<times> strategy_result) list \<Rightarrow>
    py_error + (nat \<rightharpoonup> string list) \<times> (string \<times> csv_rows) list" where
  "extract_and_save_tables cfg sys plumber_pages =
     tables_loop cfg sys 1 (Map.empty, []) plumber_pages"

section \<open>Conversion\<close>

text \<open>The \<open>artifacts\<close> object: the keys \<open>txt\<close>, \<open>tsv\<close>, \<open>hocr\<close>, \<open>error\<close>.\<close>

record artifacts =
  art_txt :: "string option"
  art_tsv :: "string option"
  art_hocr :: "string option"
  art_error :: "string option"

text \<open>
  The \<open>ocr\<close> object of a record; \<open>None\<close> is JSON \<open>null\<close>. The key
  \<open>rotate\<close> is the field \<open>rotate_mode\<close>.
\<close>

record ocr_section =
  used :: bool
  mode :: "string option"
  lang :: "string option"
  dpi :: "int option"
  psm :: "int option"
  oem :: "int option"
  rotate_mode :: "string option"
  artifacts :: artifacts

record extraction_record =
  rec_page :: nat
  rec_text :: unicode
  rec_images :: "string list"
  rec_tables :: "string list"
  rec_diagnostics :: "page_diag option"
  rec_ocr :: ocr_section

definition open_document :: "config \<Rightarrow> document \<Rightarrow> py_error + document" where
  "open_document cfg doc =
     (if needs_pass doc
      then (if \<not> truthy (password cfg) \<or> \<not> authenticate doc (the (password cfg))
            then Inl RuntimeError else Inr doc)
      else Inr doc)"

text \<open>
  \<open>page_diag = diag["pages"][i-1] if ... len(diag["pages"]) >= i else {}\<close>; the empty
  dictionary is \<open>None\<close>. The loop counts \<open>i\<close> from 1.
\<close>

definition page_diag_at :: "preflight_info \<Rightarrow> nat \<Rightarrow> page_diag option" where
  "page_diag_at diag i =
     (if i \<le> length (info_pages diag) then Some (info_pages diag ! (i - 1)) else None)"

text \<open>
  The OCR trigger:
  \<^verbatim>\<open>
  need_ocr = False
  if self.ocr_mode == 'force':
      need_ocr = True
  elif self.ocr_mode == 'auto':
      has_text_block = bool(page_diag.get("has_text_block", False))
      coverage = float(page_diag.get("image_block_coverage", 0.0))
      if (not has_text_block) or (non_ws < self.th_nonws) or (coverage >= self.th_coverage):
          need_ocr = True
  \<close>
\<close>

definition need_ocr :: "config \<Rightarrow> nat \<Rightarrow> page_diag option \<Rightarrow> bool" where
  "need_ocr cfg non_ws page_diag =
     (if ocr_mode cfg = ''force'' then True
      else if ocr_mode cfg = ''auto''
      then (let has_text = (case page_diag of None \<Rightarrow> False | Some d \<Rightarrow> has_text_block d);
                coverage = (case page_diag of None \<Rightarrow> 0 | Some d \<Rightarrow> image_block_coverage d)
            in (\<not> has_text) \<or> (int non_ws < th_nonws cfg) \<or> (coverage \<ge> th_coverage cfg))
      else False)"

text \<open>
  The body of the page loop of \<open>convert_pdf\<close>, for page number \<open>i\<close>: the trigger, the
  OCR call when triggered, the choice of the final text, the record.
\<close>

definition page_record :: "config \<Rightarrow> system \<Rightarrow> preflight_info \<Rightarrow> (nat \<rightharpoonup> string list) \<Rightarrow>
    (nat \<rightharpoonup> string list) \<Rightarrow> (nat \<Rightarrow> engine_run) \<Rightarrow> nat \<Rightarrow> page \<Rightarrow> extraction_record" where
  "page_record cfg sys diag images tables engine i p =
     (let text_pymupdf = py_strip (get_text p);
          non_ws = count_non_ws text_pymupdf;
          page_diag = page_diag_at diag i;
          need = need_ocr cfg non_ws page_diag;
          result = (if need then ocr_page cfg sys i (engine i) else ([], meta0));
          ocr_text = fst result;
          ocr_meta = snd result;
          ocr_used = (need \<and> meta_used ocr_meta \<and> ocr_text \<noteq> []);
          text_final = (if ocr_used then ocr_text else text_pymupdf)
      in \<lparr>rec_page = i,
          rec_text = text_final,
          rec_images = (case images i of None \<Rightarrow> [] | Some l \<Rightarrow> l),
          rec_tables = (case tables i of None \<Rightarrow> [] | Some l \<Rightarrow> l),
          rec_diagnostics = page_diag,
          rec_ocr =
            \<lparr>used = ocr_used,
             mode = Some (ocr_mode cfg),
             lang = (if ocr_used then Some (ocr_lang cfg) else None),
             dpi = (if ocr_used then Some (ocr_dpi cfg) else None),
             psm = (if ocr_used then Some (ocr_psm cfg) else None),
             oem = (if ocr_used then Some (ocr_oem cfg) else None),
             rotate_mode = (if ocr_used then Some (ocr_rotate cfg) else None),
             artifacts =
               \<lparr>art_txt = meta_txt ocr_meta, art_tsv = meta_tsv ocr_meta,
                art_hocr = meta_hocr ocr_meta, art_error = meta_error ocr_meta\<rparr>\<rparr>\<rparr>)"

text \<open>\<open>for i, page in enumerate(doc, start=1): ... records.append(record)\<close>\<close>

fun convert_loop :: "config \<Rightarrow> system \<Rightarrow> preflight_info \<Rightarrow> (nat \<rightharpoonup> string list) \<Rightarrow>
    (nat \<rightharpoonup> string list) \<Rightarrow> (nat \<Rightarrow> engine_run) \<Rightarrow> nat \<Rightarrow> extraction_record list \<Rightarrow> page list \<Rightarrow>
    extraction_record list" where
  "convert_loop cfg sys diag images tables engine i records [] = records"
| "convert_loop cfg sys diag images tables engine i records (p # ps) =
     convert_loop cfg sys diag images tables engine (Suc i)
       (records @ [page_record cfg sys diag images tables engine i p]) ps"

text \<open>
  \<open>convert_pdf\<close>, up to the records it hands to \<open>package_and_save\<close>. The images pass
  is given by its result \<open>images\<close>, the tables pass by what the strategies do on each
  page, the OCR engine by what it does on each page number. \<open>Inl\<close> is an exception
  leaving \<open>convert_pdf\<close>.
\<close>

definition convert_pdf :: "config \<Rightarrow> system \<Rightarrow> document \<Rightarrow> (nat \<rightharpoonup> string list) \<Rightarrow>
    (strategy_result \<times> strategy_result) list \<Rightarrow> (nat \<Rightarrow> engine_run) \<Rightarrow> py_error + extraction_record list" where
  "convert_pdf cfg sys doc0 images plumber_pages engine =
     (case open_document cfg doc0 of
        Inl e \<Rightarrow> Inl e
      | Inr doc \<Rightarrow>
          (case preflight doc of
             Inl e \<Rightarrow> Inl e
           | Inr diag \<Rightarrow>
               (case extract_and_save_tables cfg sys plumber_pages of
                  Inl e \<Rightarrow> Inl e
                | Inr (tables, files) \<Rightarrow>
                    Inr (convert_loop cfg sys diag images tables engine 1 []
                           (doc_pages doc)))))"

section \<open>The specification's vocabulary\<close>

text \<open>
  The words of the specification for the image coverage: an image-kind block, the area
  of its bounding box with width and height clamped to non-negative (a block without a
  bounding box has the box \<open>(0, 0, 0, 0)\<close>), and their sum over a page, in the
  order of the blocks, each operation a float operation.
\<close>

definition is_image :: "block \<Rightarrow> bool" where
  "is_image b = (block_type b = Some 1)"

definition bbox_area :: "block \<Rightarrow> rat" where
  "bbox_area b =
     (case bbox b of None \<Rightarrow> 0
      | Some (x0, y0, x1, y1) \<Rightarrow>
          float_mul (max 0 (float_sub x1 x0)) (max 0 (float_sub y1 y0)))"

definition image_area :: "page \<Rightarrow> rat" where
  "image_area p = foldl float_add 0 (map bbox_area (filter is_image (page_blocks p)))"

text \<open>
  A page in range: its width, its height and the coordinates of its blocks are at most
  \<open>2\<^sup>1\<^sup>2\<^sup>8\<close> in magnitude, as single-precision values are, and it has fewer than
  \<open>2\<^sup>5\<^sup>3\<close> blocks. On such a page every difference, product, sum and quotient of
  the diagnostics stays far below the largest binary64 value.
\<close>

definition in_single_range :: "rat \<Rightarrow> bool" where
  "in_single_range v = (\<bar>v\<bar> \<le> 2 ^ 128)"

definition page_in_range :: "page \<Rightarrow> bool" where
  "page_in_range p =
     (in_single_range (rect_width p) \<and> in_single_range (rect_height p) \<and>
      length (page_blocks p) < 2 ^ 53 \<and>
      list_all (\<lambda>b. case bbox b of
                       None \<Rightarrow> True
                     | Some (x0, y0, x1, y1) \<Rightarrow>
                         in_single_range x0 \<and> in_single_range y0 \<and>
                         in_single_range x1 \<and> in_single_range y1)
        (page_blocks p))"

text \<open>
  The words of the specification for tables: a non-blank cell is a string that is not
  empty once stripped; a row, a table is non-blank when it has a non-blank cell, a
  non-blank row; an absent cell is normalized to the empty string; the rows persisted
  for a table are its non-blank rows, normalized.
\<close>

definition cell_nonblank :: "unicode option \<Rightarrow> bool" where
  "cell_nonblank cell = (case cell of None \<Rightarrow> False | Some s \<Rightarrow> py_strip s \<noteq> [])"

definition row_nonblank :: "unicode option list \<Rightarrow> bool" where
  "row_nonblank row = list_ex cell_nonblank row"

definition table_nonblank :: "table \<Rightarrow> bool" where
  "table_nonblank t = list_ex row_nonblank t"

definition normalize_cell :: "unicode option \<Rightarrow> unicode" where
  "normalize_cell cell = (case cell of None \<Rightarrow> [] | Some s \<Rightarrow> s)"

definition persisted_rows :: "table \<Rightarrow> csv_rows" where
  "persisted_rows t = map (map normalize_cell) (filter row_nonblank t)"


definition files_from :: "config \<Rightarrow> nat \<Rightarrow> nat \<Rightarrow> table list \<Rightarrow> (string \<times> csv_rows) list" where
  "files_from cfg i n cands =
     (let kept = filter table_nonblank cands in
      zip (map (table_file cfg i) [Suc n..<Suc n + length kept]) (map persisted_rows kept))"

definition expected_files :: "config \<Rightarrow> nat \<Rightarrow> table list \<Rightarrow> (string \<times> csv_rows) list" where
  "expected_files cfg i cands = files_from cfg i 0 cands"




text \<open>
  For the detection of the engine: an optional path is usable when it is given, not
  empty and exists; the first existing path among the built-in ones, Windows first.
\<close>

definition usable :: "system \<Rightarrow> string option \<Rightarrow> bool" where
  "usable sys v = (case v of None \<Rightarrow> False | Some c \<Rightarrow> c \<noteq> [] \<and> fs_exists sys c)"

definition first_default :: "system \<Rightarrow> string option" where
  "first_default sys = find (fs_exists sys) (windows_common_paths @ unix_common_paths)"

text \<open>
  The engine is available to \<open>ocr_page\<close> when both libraries are loaded and the
  binary is found on the search path or exists as a file. The OCR of page \<open>i\<close> ran
  to the end when the engine is available and no call of the \<open>try\<close> block raised.
\<close>

definition engine_available :: "system \<Rightarrow> bool" where
  "engine_available sys =
     (pytesseract_loaded sys \<and> pil_loaded sys \<and>
      (shutil_which sys (tesseract_cmd sys) \<or> fs_exists sys (tesseract_cmd sys)))"

definition ocr_completed :: "system \<Rightarrow> (nat \<Rightarrow> engine_run) \<Rightarrow> nat \<Rightarrow> bool" where
  "ocr_completed sys engine i =
     (engine_available sys \<and> (case engine i of EngineRaised msg \<Rightarrow> False | EngineText t \<Rightarrow> True))"

section \<open>Example inputs\<close>

text \<open>The defaults of the command line, with the OCR mode left open.\<close>

definition ex_cfg :: "string \<Rightarrow> config" where
  "ex_cfg m = \<lparr>ocr_mode = m, ocr_lang = ''jpn+eng'', ocr_dpi = 300, ocr_rotate = ''auto'',
     ocr_psm = 6, ocr_oem = 1, th_nonws = 20, th_coverage = 7 / 10,
     csv_encoding = ''utf-8-sig'', table_dir = ''out/tables'', ocr_dir = ''out/ocr'', password = None\<rparr>"

definition ex_diag :: "bool \<Rightarrow> nat \<Rightarrow> rat \<Rightarrow> page_diag" where
  "ex_diag t n c = \<lparr>diag_page = 1, has_text_block = t, non_ws_chars = n, image_block_coverage = c\<rparr>"

text \<open>A page of 100 by 100 points carrying the same full-page image twice.\<close>

definition ex_image_block :: block where
  "ex_image_block = \<lparr>block_type = Some 1, bbox = Some (0, 0, 100, 100)\<rparr>"

definition ex_overlap_page :: page where
  "ex_overlap_page = \<lparr>get_text = [], raw_blocks = Some [ex_image_block, ex_image_block],
     rect_width = 100, rect_height = 100\<rparr>"

text \<open>A page of 200 by 100 points carrying one image of 1 by 1 point.\<close>

definition ex_small_image_page :: page where
  "ex_small_image_page = \<lparr>get_text = [],
     raw_blocks = Some [\<lparr>block_type = Some 1, bbox = Some (0, 0, 1, 1)\<rparr>],
     rect_width = 200, rect_height = 100\<rparr>"

text \<open>A page of zero width carrying an image block, and a page with a text block.\<close>

definition ex_flat_page :: page where
  "ex_flat_page = \<lparr>get_text = [72, 105], raw_blocks = Some [ex_image_block],
     rect_width = 0, rect_height = 100\<rparr>"

definition ex_text_page :: page where
  "ex_text_page = \<lparr>get_text = [32, 72, 105, 10],
     raw_blocks = Some [\<lparr>block_type = Some 0, bbox = Some (10, 10, 90, 20)\<rparr>],
     rect_width = 100, rect_height = 100\<rparr>"

definition ex_doc :: document where
  "ex_doc = \<lparr>needs_pass = False, is_encrypted = False, permissions = - 4,
     authenticate = (\<lambda>pw. False), doc_pages = [ex_text_page, ex_flat_page]\<rparr>"

text \<open>
  Writing a table where every file can be created: the codec \<open>ascii\<close> raises on a
  code point from 128 on, every other encoding here encodes every character.
\<close>

definition ex_csv_write :: "string \<Rightarrow> string \<Rightarrow> unicode list list \<Rightarrow> string option" where
  "ex_csv_write path enc rows =
     (if enc = ''ascii'' \<and> list_ex (list_ex (list_ex (\<lambda>c. 128 \<le> c))) rows
      then Some ''ordinal not in range(128)'' else None)"

text \<open>
  A process with or without the OCR libraries, with or without \<open>tesseract\<close> on the
  search path; an engine that returns the same text on every page.
\<close>

definition ex_sys :: "bool \<Rightarrow> bool \<Rightarrow> system" where
  "ex_sys lib bin = \<lparr>pytesseract_loaded = lib, pil_loaded = lib, tesseract_cmd = ''tesseract'',
     environ = Map.empty, fs_exists = (\<lambda>path. False), fs_isdir = (\<lambda>path. False),
     shutil_which = (\<lambda>cmd. bin \<and> cmd = ''tesseract''), csv_write = ex_csv_write\<rparr>"

definition ex_engine :: "unicode \<Rightarrow> nat \<Rightarrow> engine_run" where
  "ex_engine t = (\<lambda>i. EngineText t)"






text \<open>
  A process whose environment names one existing binary, while another existing binary
  can be passed as the explicit path, and a third sits at a built-in path.
\<close>

definition ex_sys_env :: system where
  "ex_sys_env = \<lparr>pytesseract_loaded = True, pil_loaded = True, tesseract_cmd = ''tesseract'',
     environ = [''TESSERACT_CMD'' \<mapsto> ''/e/tesseract''],
     fs_exists = (\<lambda>path. path = ''/e/tesseract'' \<or> path = ''/x/tesseract'' \<or> path = ''/usr/bin/tesseract''),
     fs_isdir = (\<lambda>path. False), shutil_which = (\<lambda>cmd. False), csv_write = ex_csv_write\<rparr>"

text \<open>The diagnostics of a one-page document whose page has a text block.\<close>

definition ex_info :: preflight_info where
  "ex_info = \<lparr>info_encrypted = False, info_needs_pass = False, info_permissions = - 4,
     info_pages = [ex_diag True 2 0]\<rparr>"

section \<open>Properties\<close>

subsection \<open>Rounding\<close>

lemma round_half_even_cases:
  "round_half_even x = \<lfloor>x\<rfloor> \<or> (round_half_even x = \<lfloor>x\<rfloor> + 1 \<and> 1 / 2 \<le> x - of_int \<lfloor>x\<rfloor>)"
  by (auto simp: round_half_even_def Let_def)

lemma round_half_even_nonneg: "0 \<le> x \<Longrightarrow> 0 \<le> round_half_even x"
  using round_half_even_cases [of x] by (auto simp: zero_le_floor)

lemma round_half_even_le:
  assumes "x \<le> of_int n"
  shows "round_half_even x \<le> n"
proof -
  have below: "\<lfloor>x\<rfloor> \<le> n" using assms by (simp add: floor_le_iff)
  show ?thesis
  proof (cases "round_half_even x = \<lfloor>x\<rfloor>")
    case True
    then show ?thesis using below by simp
  next
    case False
    then have r: "round_half_even x = \<lfloor>x\<rfloor> + 1" and h: "1 / 2 \<le> x - of_int \<lfloor>x\<rfloor>"
      using round_half_even_cases [of x] by auto
    have "\<lfloor>x\<rfloor> \<noteq> n"
    proof
      assume "\<lfloor>x\<rfloor> = n"
      then have "x - of_int n \<le> 0" using assms by simp
      with h \<open>\<lfloor>x\<rfloor> = n\<close> show False by simp
    qed
    with below r show ?thesis by simp
  qed
qed

text \<open>The rounded integer is at most one half away.\<close>

lemma round_half_even_nearest: "\<bar>of_int (round_half_even x) - x\<bar> \<le> 1 / 2"
proof -
  have "of_int \<lfloor>x\<rfloor> \<le> x" "x < of_int \<lfloor>x\<rfloor> + 1" by linarith+
  then show ?thesis by (auto simp: round_half_even_def Let_def abs_le_iff)
qed

text \<open>\<open>binade\<close> is the binary exponent.\<close>

lemma bitlen_one: "bitlen 1 = 1"
  by (simp add: bitlen_alt_def)

lemma binade_bounds:
  assumes "x \<noteq> 0"
  shows "2 powi (binade x) \<le> \<bar>x\<bar> \<and> \<bar>x\<bar> < 2 powi (binade x + 1)"
proof (cases "1 \<le> \<bar>x\<bar>")
  case True
  define n where "n = \<lfloor>\<bar>x\<bar>\<rfloor>"
  have n: "1 \<le> n" using True by (simp add: n_def le_floor_iff)
  then have b: "2 ^ nat (bitlen n - 1) \<le> n" "n < 2 ^ nat (bitlen n)"
    using bitlen_bounds [of n] by simp_all
  have bl: "1 \<le> bitlen n"
  proof (rule ccontr)
    assume "\<not> 1 \<le> bitlen n"
    then have "nat (bitlen n) = 0" by simp
    with b(2) n show False by simp
  qed
  have e: "binade x = bitlen n - 1" using True by (simp add: binade_def n_def)
  have lo: "(2::rat) powi (bitlen n - 1) \<le> \<bar>x\<bar>"
  proof -
    have "(2::rat) powi (bitlen n - 1) = of_int (2 ^ nat (bitlen n - 1))"
      using bl by (simp add: power_int_def)
    also have "\<dots> \<le> of_int n" using b(1) by (simp only: of_int_le_iff)
    also have "\<dots> \<le> \<bar>x\<bar>" by (simp add: n_def)
    finally show ?thesis .
  qed
  have hi: "\<bar>x\<bar> < (2::rat) powi (bitlen n - 1 + 1)"
  proof -
    have "\<bar>x\<bar> < of_int (n + 1)" by (simp add: n_def) linarith
    also have "\<dots> \<le> of_int (2 ^ nat (bitlen n))" using b(2) by (simp only: of_int_le_iff)
    also have "\<dots> = (2::rat) powi (bitlen n - 1 + 1)" using bl by (simp add: power_int_def)
    finally show ?thesis .
  qed
  from lo hi e show ?thesis by simp
next
  case False
  define a where "a = \<bar>x\<bar>"
  define m where "m = \<lceil>1 / a\<rceil> - 1"
  have a: "0 < a" "a < 1" using assms False by (simp_all add: a_def)
  then have y: "1 < 1 / a" by simp
  have m1: "of_int m < 1 / a" "1 / a \<le> of_int m + 1"
    unfolding m_def by (simp_all add: ceiling_correct)
  have m: "1 \<le> m"
  proof -
    from y have "1 < \<lceil>1 / a\<rceil>" by (simp add: less_ceiling_iff)
    then show ?thesis by (simp add: m_def)
  qed
  then have b: "2 ^ nat (bitlen m - 1) \<le> m" "m < 2 ^ nat (bitlen m)"
    using bitlen_bounds [of m] by simp_all
  have bl: "1 \<le> bitlen m"
  proof (rule ccontr)
    assume "\<not> 1 \<le> bitlen m"
    then have "nat (bitlen m) = 0" by simp
    with b(2) m show False by simp
  qed
  have e: "binade x = - bitlen m" using False by (simp add: binade_def m_def a_def Let_def)
  have lo: "(2::rat) powi (- bitlen m) \<le> a"
  proof -
    have "1 / a \<le> of_int (m + 1)" using m1(2) by simp
    also have "\<dots> \<le> of_int (2 ^ nat (bitlen m))" using b(2) by (simp only: of_int_le_iff)
    also have "\<dots> = (2::rat) ^ nat (bitlen m)" by simp
    finally have "1 / a \<le> (2::rat) ^ nat (bitlen m)" .
    then have "1 / (2::rat) ^ nat (bitlen m) \<le> a"
      using a(1) by (simp add: field_simps)
    moreover have "(2::rat) powi (- bitlen m) = 1 / 2 ^ nat (bitlen m)"
      using bl by (simp add: power_int_def field_simps)
    ultimately show ?thesis by simp
  qed
  have hi: "a < (2::rat) powi (- bitlen m + 1)"
  proof -
    have "(2::rat) ^ nat (bitlen m - 1) = of_int (2 ^ nat (bitlen m - 1))" by simp
    also have "\<dots> \<le> of_int m" using b(1) by (simp only: of_int_le_iff)
    also have "\<dots> < 1 / a" by (rule m1(1))
    finally have "(2::rat) ^ nat (bitlen m - 1) < 1 / a" .
    then have "a < 1 / (2::rat) ^ nat (bitlen m - 1)"
      using a(1) by (simp add: field_simps)
    moreover have "(2::rat) powi (- bitlen m + 1) = 1 / 2 ^ nat (bitlen m - 1)"
    proof -
      have "- bitlen m + 1 = - int (nat (bitlen m - 1))" using bl by simp
      then show ?thesis by (simp only: power_int_minus power_int_of_nat) (simp add: field_simps)
    qed
    ultimately show ?thesis by simp
  qed
  from lo hi e show ?thesis by (simp add: a_def)
qed

lemma binade_le_zero:
  assumes "\<bar>x\<bar> \<le> 1"
  shows "binade x \<le> 0"
proof (cases "1 \<le> \<bar>x\<bar>")
  case True
  with assms have "\<bar>x\<bar> = 1" by simp
  then show ?thesis by (simp add: binade_def bitlen_one)
next
  case False
  then show ?thesis by (simp add: binade_def Let_def bitlen_nonneg)
qed

text \<open>Rounding to binary64 keeps zero, the sign, and what is at most 1 below 1.\<close>

lemma to_double_zero: "to_double 0 = 0"
  by (simp add: to_double_def)

lemma to_double_nonneg: "0 \<le> x \<Longrightarrow> 0 \<le> to_double x"
  by (simp add: to_double_def Let_def round_half_even_nonneg)

lemma to_double_le_one:
  assumes "x \<le> 1"
  shows "to_double x \<le> 1"
proof (cases "0 < x")
  case False
  then have "x / 2 powi (max (binade x) (- 1022) - 52) \<le> of_int 0"
    by (simp add: divide_le_0_iff)
  then have "round_half_even (x / 2 powi (max (binade x) (- 1022) - 52)) \<le> 0"
    by (rule round_half_even_le)
  then have "of_int (round_half_even (x / 2 powi (max (binade x) (- 1022) - 52))) *
      (2::rat) powi (max (binade x) (- 1022) - 52) \<le> 0"
    by (simp add: mult_le_0_iff)
  then show ?thesis by (simp add: to_double_def Let_def)
next
  case True
  define k where "k = max (binade x) (- 1022) - 52"
  define n where "n = nat (- k)"
  from True assms have "binade x \<le> 0" by (intro binade_le_zero) simp
  then have "k \<le> 0" by (simp add: k_def)
  then have ulp: "(2::rat) powi k = 1 / 2 ^ n"
    by (simp add: n_def power_int_def field_simps)
  have "x / (2 powi k) = x * 2 ^ n" by (simp add: ulp)
  also have "\<dots> \<le> 1 * 2 ^ n" using assms by (intro mult_right_mono) simp_all
  finally have "x / (2 powi k) \<le> of_int (2 ^ n)" by simp
  then have "round_half_even (x / (2 powi k)) \<le> 2 ^ n" by (rule round_half_even_le)
  then have "(of_int (round_half_even (x / (2 powi k))) :: rat) \<le> 2 ^ n"
    by (metis of_int_le_iff of_int_numeral of_int_power)
  then have "of_int (round_half_even (x / (2 powi k))) * (2::rat) powi k \<le> 1"
    by (simp add: ulp field_simps)
  with True show ?thesis by (simp add: to_double_def Let_def k_def)
qed

lemma py_round4_nonneg: "0 \<le> x \<Longrightarrow> 0 \<le> py_round4 x"
  by (simp add: py_round4_def to_double_nonneg round_half_even_nonneg)

lemma py_round4_le_one: "x \<le> 1 \<Longrightarrow> py_round4 x \<le> 1"
proof -
  assume "x \<le> 1"
  then have "x * 10000 \<le> of_int 10000" by simp
  then have "round_half_even (x * 10000) \<le> 10000" by (rule round_half_even_le)
  then have "(of_int (round_half_even (x * 10000)) :: rat) \<le> 10000"
    by (metis of_int_le_iff of_int_numeral)
  then have "(of_int (round_half_even (x * 10000)) :: rat) / 10000 \<le> 1" by simp
  then show ?thesis unfolding py_round4_def by (rule to_double_le_one)
qed

text \<open>Small integers are binary64 values.\<close>

lemma to_double_values:
  "to_double 0 = 0" "to_double 1 = 1" "to_double 2 = 2" "to_double 100 = 100"
  "to_double 10000 = 10000" "to_double 20000 = 20000"
  by code_simp+

text \<open>
  The quotients 1/20000 and 13999/20000 are not binary64 values: as floats they lie
  just above 0.00005 and just below 0.69995, so \<open>round\<close> gives 0.0001 and 0.6999,
  where rounding the exact quotients half-even would give 0 and 0.7. The float 0.6999
  is below the default threshold 0.7.
\<close>

lemma round_follows_binary64:
  "to_double (1 / 20000) = 7378697629483821 / 2 ^ 67"
  "py_round4 (to_double (1 / 20000)) = to_double (1 / 10000)"
  "to_double (1 / 10000) = 7378697629483821 / 2 ^ 66"
  "py_round4 (to_double (13999 / 20000)) = to_double (6999 / 10000)"
  "to_double (6999 / 10000) < to_double (7 / 10)"
  by code_simp+

subsection \<open>Preflight diagnostics\<close>

lemma bbox_area_nonneg: "0 \<le> bbox_area b"
  by (auto simp: bbox_area_def float_mul_def to_double_nonneg split: option.splits)

lemma foldl_float_add_nonneg:
  "0 \<le> acc \<Longrightarrow> list_all (\<lambda>x. 0 \<le> x) xs \<Longrightarrow> 0 \<le> foldl float_add acc xs"
  by (induction xs arbitrary: acc) (simp_all add: float_add_def to_double_nonneg)

lemma image_area_nonneg: "0 \<le> image_area p"
  unfolding image_area_def
  by (rule foldl_float_add_nonneg) (simp_all add: list_all_iff bbox_area_nonneg)

text \<open>
  The accumulating loop computes the float sum, in the order of the blocks, of the
  clamped areas of the image blocks.
\<close>

lemma img_area_loop_sum:
  "img_area_loop acc bs = foldl float_add acc (map bbox_area (filter is_image bs))"
  by (induction bs arbitrary: acc)
     (auto simp: is_image_def bbox_area_def float_sub_def float_mul_def to_double_zero
       split: option.splits prod.splits)

lemma page_area_nonzero: "page_area p \<noteq> 0"
  by (simp add: page_area_def Let_def)

lemma page_area_pos:
  assumes "0 \<le> rect_width p" and "0 \<le> rect_height p"
  shows "0 < page_area p"
proof -
  from assms have "0 \<le> to_double (rect_width p * rect_height p)"
    by (intro to_double_nonneg) simp
  then show ?thesis by (simp add: page_area_def float_mul_def Let_def order.strict_iff_order)
qed

lemma preflight_page_Inr:
  "preflight_page i p =
     Inr \<lparr>diag_page = i,
          has_text_block = list_ex (\<lambda>b. block_type b = Some 0) (page_blocks p),
          non_ws_chars = count_non_ws (py_strip (get_text p)),
          image_block_coverage = py_round4 (to_double (image_area p / page_area p))\<rparr>"
  by (simp add: preflight_page_def Let_def py_truediv_def page_area_nonzero
      img_area_loop_sum image_area_def)

text \<open>
  Claim C7, as amended. On a page in range whose width and height are not negative,
  the diagnostic's coverage is the float sum of the image blocks' clamped bounding-box
  areas, divided as floats by the page area and rounded by \<open>round\<close> to 4 decimal
  places; it is never negative, and it is at most 1 whenever the summed image area
  does not exceed the page area.
\<close>

theorem coverage_computed:
  assumes "0 \<le> rect_width p" and "0 \<le> rect_height p" and "page_in_range p"
  shows "\<exists>d. preflight_page i p = Inr d \<and>
           image_block_coverage d = py_round4 (to_double (image_area p / page_area p)) \<and>
           0 \<le> image_block_coverage d \<and>
           (image_area p \<le> page_area p \<longrightarrow> image_block_coverage d \<le> 1)"
proof -
  have pos: "0 < page_area p" using assms(1,2) by (rule page_area_pos)
  have "0 \<le> image_area p / page_area p"
    using pos image_area_nonneg [of p] by simp
  then have "0 \<le> to_double (image_area p / page_area p)"
    by (rule to_double_nonneg)
  then have lo: "0 \<le> py_round4 (to_double (image_area p / page_area p))"
    by (rule py_round4_nonneg)
  have hi: "py_round4 (to_double (image_area p / page_area p)) \<le> 1"
    if "image_area p \<le> page_area p"
  proof -
    from that pos have "image_area p / page_area p \<le> 1" by simp
    then have "to_double (image_area p / page_area p) \<le> 1" by (rule to_double_le_one)
    then show ?thesis by (rule py_round4_le_one)
  qed
  show ?thesis using lo hi by (simp add: preflight_page_Inr)
qed

text \<open>
  The two example pages, evaluated: the overlapping images give the coverage 2; the
  small image gives the float 0.0001, on a page where the image area is below the page
  area.
\<close>

lemma ex_overlap_eval:
  "preflight_page i ex_overlap_page =
     Inr \<lparr>diag_page = i, has_text_block = False, non_ws_chars = 0, image_block_coverage = 2\<rparr>"
  by (simp add: preflight_page_def Let_def ex_overlap_page_def ex_image_block_def
      page_blocks_def py_strip_def count_non_ws_def py_truediv_def page_area_def
      py_round4_def round_half_even_def float_sub_def float_mul_def float_add_def
      to_double_values)

lemma ex_small_image_eval:
  "image_area ex_small_image_page = 1"
  "page_area ex_small_image_page = 20000"
  "preflight_page i ex_small_image_page =
     Inr \<lparr>diag_page = i, has_text_block = False, non_ws_chars = 0,
          image_block_coverage = to_double (1 / 10000)\<rparr>"
  by (simp_all add: preflight_page_def Let_def ex_small_image_page_def image_area_def
      is_image_def bbox_area_def page_blocks_def py_strip_def count_non_ws_def py_truediv_def
      page_area_def float_sub_def float_mul_def float_add_def to_double_values
      round_follows_binary64(2))

lemma ex_pages_in_range:
  "0 \<le> rect_width ex_overlap_page" "0 \<le> rect_height ex_overlap_page"
  "page_in_range ex_overlap_page"
  "0 \<le> rect_width ex_small_image_page" "0 \<le> rect_height ex_small_image_page"
  "page_in_range ex_small_image_page"
  by (simp_all add: page_in_range_def in_single_range_def page_blocks_def
      ex_overlap_page_def ex_small_image_page_def ex_image_block_def)

theorem coverage_computed_witness:
  "page_in_range ex_overlap_page \<and>
   (\<exists>d. preflight_page 1 ex_overlap_page = Inr d \<and> image_block_coverage d = 2 \<and>
      0 \<le> image_block_coverage d) \<and>
   page_in_range ex_small_image_page \<and>
   image_area ex_small_image_page \<le> page_area ex_small_image_page \<and>
   (\<exists>d. preflight_page 1 ex_small_image_page = Inr d \<and>
      image_block_coverage d = 7378697629483821 / 2 ^ 66 \<and>
      0 \<le> image_block_coverage d \<and> image_block_coverage d \<le> 1)"
proof -
  note a = coverage_computed [OF ex_pages_in_range(1,2,3), of 1]
  note b = coverage_computed [OF ex_pages_in_range(4,5,6), of 1]
  have le: "image_area ex_small_image_page \<le> page_area ex_small_image_page"
    by (simp add: ex_small_image_eval)
  from a have "\<exists>d. preflight_page 1 ex_overlap_page = Inr d \<and> image_block_coverage d = 2 \<and>
      0 \<le> image_block_coverage d"
    by (auto simp: ex_overlap_eval)
  moreover from b le have "\<exists>d. preflight_page 1 ex_small_image_page = Inr d \<and>
      image_block_coverage d = 7378697629483821 / 2 ^ 66 \<and>
      0 \<le> image_block_coverage d \<and> image_block_coverage d \<le> 1"
    by (auto simp: ex_small_image_eval round_follows_binary64(3))
  ultimately show ?thesis using le ex_pages_in_range(3,6) by blast
qed

text \<open>
  The claim as stated fails: two image blocks that each cover the whole page give the
  coverage 2, outside the interval from 0 to 1.
\<close>

theorem coverage_above_one_counterexample:
  "image_block_coverage (projr (preflight_page 1 ex_overlap_page)) = 2 \<and>
   \<not> image_block_coverage (projr (preflight_page 1 ex_overlap_page)) \<le> 1"
  by (simp add: ex_overlap_eval)

lemma preflight_loop_total:
  "\<exists>ds. preflight_loop i ps = Inr ds \<and> length ds = length ps \<and>
     (\<forall>k<length ps. preflight_page (i + k) (ps ! k) = Inr (ds ! k))"
proof (induction ps arbitrary: i)
  case Nil
  then show ?case by simp
next
  case (Cons p ps)
  obtain d where d: "preflight_page i p = Inr d"
    by (simp add: preflight_page_Inr)
  from Cons.IH [of "Suc i"] obtain ds where ds: "preflight_loop (Suc i) ps = Inr ds"
    "length ds = length ps" "\<forall>k<length ps. preflight_page (Suc i + k) (ps ! k) = Inr (ds ! k)"
    by blast
  have "preflight_page (i + k) ((p # ps) ! k) = Inr ((d # ds) ! k)" if "k < length (p # ps)" for k
    using that d ds(3) by (cases k) auto
  with d ds(1,2) show ?case by simp
qed

text \<open>
  Claim C9. The diagnostics of a page are always computed: the divisor of the coverage
  is never zero, it is 1 when the page reports zero area, so the division does not
  raise; the pass over a document returns one diagnostic per page.
\<close>

theorem preflight_total:
  "page_area p \<noteq> 0 \<and>
   (rect_width p * rect_height p = 0 \<longrightarrow> page_area p = 1) \<and>
   (\<exists>d. preflight_page i p = Inr d) \<and>
   (\<exists>info. preflight doc = Inr info \<and> length (info_pages info) = length (doc_pages doc))"
proof -
  obtain ds where "preflight_loop 1 (doc_pages doc) = Inr ds" "length ds = length (doc_pages doc)"
    using preflight_loop_total [of 1 "doc_pages doc"] by blast
  then have "\<exists>info. preflight doc = Inr info \<and> length (info_pages info) = length (doc_pages doc)"
    by (simp add: preflight_def)
  then show ?thesis
    by (simp add: page_area_nonzero preflight_page_Inr)
       (simp add: page_area_def float_mul_def to_double_zero Let_def)
qed

theorem preflight_total_witness:
  "rect_width ex_flat_page * rect_height ex_flat_page = 0 \<and> page_area ex_flat_page = 1 \<and>
   (\<exists>d. preflight_page 1 ex_flat_page = Inr d) \<and>
   (\<exists>info. preflight ex_doc = Inr info \<and> length (info_pages info) = 2)"
proof -
  have z: "rect_width ex_flat_page * rect_height ex_flat_page = 0"
    by (simp add: ex_flat_page_def)
  have n: "length (doc_pages ex_doc) = 2" by (simp add: ex_doc_def)
  from preflight_total [of ex_flat_page 1 ex_doc] z n show ?thesis by simp
qed

text \<open>The diagnostics of the two example pages, evaluated.\<close>

lemma ex_flat_eval:
  "preflight_page i ex_flat_page =
     Inr \<lparr>diag_page = i, has_text_block = False, non_ws_chars = 2, image_block_coverage = 10000\<rparr>"
  by (simp add: preflight_page_def Let_def ex_flat_page_def ex_image_block_def
      page_blocks_def py_strip_def count_non_ws_def py_truediv_def page_area_def
      py_round4_def round_half_even_def py_isspace_def float_sub_def float_mul_def
      float_add_def to_double_values)

lemma ex_text_eval:
  "preflight_page i ex_text_page =
     Inr \<lparr>diag_page = i, has_text_block = True, non_ws_chars = 2, image_block_coverage = 0\<rparr>"
  by (simp add: preflight_page_def Let_def ex_text_page_def ex_image_block_def
      page_blocks_def py_strip_def count_non_ws_def py_truediv_def page_area_def
      py_round4_def round_half_even_def py_isspace_def float_sub_def float_mul_def
      float_add_def to_double_values)

subsection \<open>The records of a document\<close>

text \<open>The loop appends, for the page at offset \<open>k\<close>, the record numbered \<open>i + k\<close>.\<close>

lemma convert_loop_closed:
  "convert_loop cfg sys diag images tables engine i records ps =
     records @ map (\<lambda>k. page_record cfg sys diag images tables engine (i + k) (ps ! k)) [0..<length ps]"
proof (induction ps arbitrary: i records)
  case Nil
  then show ?case by simp
next
  case (Cons p ps)
  show ?case
    by (simp add: Cons.IH map_upt_Suc del: upt_Suc)
qed

lemma rec_page_page_record [simp]:
  "rec_page (page_record cfg sys diag images tables engine i p) = i"
  by (simp add: page_record_def Let_def)

lemma map_Suc_upt_from_zero: "map (\<lambda>k. Suc k) [0..<n] = [1..<Suc n]"
  using map_Suc_upt [of 0 n] by simp

text \<open>
  The conversion reaches its end when the document needs no password, or the
  configured password authenticates, and the table pass returns.
\<close>

lemma convert_pdf_completes:
  assumes "\<not> needs_pass doc \<or> (truthy (password cfg) \<and> authenticate doc (the (password cfg)))"
      and "extract_and_save_tables cfg sys plumber = Inr (tables, files)"
  shows "\<exists>records. convert_pdf cfg sys doc images plumber engine = Inr records"
proof -
  have "open_document cfg doc = Inr doc" using assms(1) by (auto simp: open_document_def)
  moreover obtain info where "preflight doc = Inr info"
    using preflight_loop_total [of 1 "doc_pages doc"] by (auto simp: preflight_def)
  ultimately show ?thesis using assms(2) by (simp add: convert_pdf_def)
qed

text \<open>
  Claim C6. When the conversion of a document completes, there are as many records as
  pages, their page indices are 1, 2, ... in strictly increasing order, and the record
  at position \<open>k\<close> is the one assembled from the page at position \<open>k\<close>.
\<close>

theorem records_follow_pages:
  assumes "convert_pdf cfg sys doc images plumber engine = Inr records"
  shows "length records = length (doc_pages doc) \<and>
         map rec_page records = [1..<Suc (length (doc_pages doc))] \<and>
         sorted_wrt (<) (map rec_page records) \<and>
         (\<exists>diag tables files.
            preflight doc = Inr diag \<and>
            extract_and_save_tables cfg sys plumber = Inr (tables, files) \<and>
            (\<forall>k<length (doc_pages doc).
               records ! k =
                 page_record cfg sys diag images tables engine (Suc k) (doc_pages doc ! k)))"
proof -
  from assms have od: "open_document cfg doc = Inr doc"
    by (auto simp: convert_pdf_def open_document_def split: if_splits sum.splits)
  obtain diag where diag: "preflight doc = Inr diag"
    using preflight_loop_total [of 1 "doc_pages doc"] by (auto simp: preflight_def)
  from assms od diag obtain tables files where
    tabs: "extract_and_save_tables cfg sys plumber = Inr (tables, files)"
    by (auto simp: convert_pdf_def split: sum.splits)
  from assms od diag tabs have recs:
    "records = map (\<lambda>k. page_record cfg sys diag images tables engine (Suc k) (doc_pages doc ! k))
       [0..<length (doc_pages doc)]"
    by (simp add: convert_pdf_def convert_loop_closed)
  have len: "length records = length (doc_pages doc)" by (simp add: recs)
  have idx: "map rec_page records = [1..<Suc (length (doc_pages doc))]"
    by (simp add: recs comp_def map_Suc_upt_from_zero del: upt_Suc)
  have srt: "sorted_wrt (<) (map rec_page records)" by (simp only: idx sorted_wrt_upt)
  have nth: "\<forall>k<length (doc_pages doc). records ! k =
      page_record cfg sys diag images tables engine (Suc k) (doc_pages doc ! k)"
    by (simp add: recs)
  from len idx srt nth diag tabs show ?thesis by blast
qed

theorem records_follow_pages_witness:
  "\<exists>records. convert_pdf (ex_cfg ''auto'') (ex_sys True True) ex_doc Map.empty [] (ex_engine [79, 75]) = Inr records \<and>
     length records = 2 \<and> map rec_page records = [1, 2]"
proof -
  have "\<not> needs_pass ex_doc" by (simp add: ex_doc_def)
  moreover have "extract_and_save_tables (ex_cfg ''auto'') (ex_sys True True) [] =
      Inr (Map.empty, [])"
    by (simp add: extract_and_save_tables_def)
  ultimately obtain records where
    h: "convert_pdf (ex_cfg ''auto'') (ex_sys True True) ex_doc Map.empty [] (ex_engine [79, 75]) = Inr records"
    using convert_pdf_completes by blast
  have n: "length (doc_pages ex_doc) = 2" by (simp add: ex_doc_def)
  have u: "[1..<Suc 2] = [1, 2]" by (simp add: upt_rec)
  from records_follow_pages [OF h] h n u show ?thesis by simp
qed

subsection \<open>Tables\<close>

lemma py_strip_Nil [simp]: "py_strip [] = []"
  by (simp add: py_strip_def)





text \<open>The files of a list of candidates, one candidate at a time.\<close>

lemma files_from_Nil [simp]: "files_from cfg i n [] = []"
  by (simp add: files_from_def)


lemma length_files_from [simp]:
  "length (files_from cfg i n ts) = length (filter table_nonblank ts)"
  by (simp add: files_from_def Let_def del: upt_Suc)

text \<open>
  The files of a page hold the persisted rows of its non-blank candidates, in order,
  under the names numbered 1, 2, ...
\<close>

lemma expected_files_parts:
  "map snd (expected_files cfg i cands) = map persisted_rows (filter table_nonblank cands)"
  "map fst (expected_files cfg i cands) =
     map (table_file cfg i) [1..<Suc (length (filter table_nonblank cands))]"
  by (simp_all add: expected_files_def files_from_def Let_def del: upt_Suc)











subsection \<open>Tesseract path detection\<close>

lemma candidate_loop_cmd:
  "tesseract_cmd (candidate_loop sys cs) =
     (case find (\<lambda>c. c \<noteq> [] \<and> fs_exists sys c) cs of
        None \<Rightarrow> tesseract_cmd sys
      | Some c \<Rightarrow> c)"
  by (induction cs) (auto simp: Let_def)

lemma find_defaults:
  "find (\<lambda>c. c \<noteq> [] \<and> fs_exists sys c) (windows_common_paths @ unix_common_paths) =
     first_default sys"
  by (simp add: first_default_def windows_common_paths_def unix_common_paths_def win_path_def)

text \<open>
  Claim C3, as amended. When \<open>pytesseract\<close> is loaded, the configured binary is the
  first existing candidate in the order: the environment override (\<open>TESSERACT_CMD\<close>,
  else \<open>TESSERACT_EXE\<close>), then the explicitly supplied path, then the built-in
  install paths; when none exists the command is left as it was, which \<open>ocr_page\<close>
  later looks up on the search path.
\<close>

theorem configure_tesseract_priority:
  assumes "pytesseract_loaded sys"
  shows "(usable sys (env_cmd sys) \<longrightarrow>
            tesseract_cmd (configure_tesseract sys cmd_arg) = the (env_cmd sys)) \<and>
         (\<not> usable sys (env_cmd sys) \<and> usable sys cmd_arg \<longrightarrow>
            tesseract_cmd (configure_tesseract sys cmd_arg) = the cmd_arg) \<and>
         (\<not> usable sys (env_cmd sys) \<and> \<not> usable sys cmd_arg \<longrightarrow>
            tesseract_cmd (configure_tesseract sys cmd_arg) =
              (case first_default sys of None \<Rightarrow> tesseract_cmd sys | Some c \<Rightarrow> c))"
proof -
  have a: "tesseract_cmd (configure_tesseract sys cmd_arg) = the (env_cmd sys)"
    if "usable sys (env_cmd sys)"
    using that assms
    by (auto simp: configure_tesseract_def candidates_def candidate_loop_cmd usable_def truthy_def
        split: option.splits)
  have b: "tesseract_cmd (configure_tesseract sys cmd_arg) = the cmd_arg"
    if "\<not> usable sys (env_cmd sys)" "usable sys cmd_arg"
    using that assms
    by (auto simp: configure_tesseract_def candidates_def candidate_loop_cmd usable_def truthy_def
        split: option.splits)
  have c: "tesseract_cmd (configure_tesseract sys cmd_arg) =
      (case first_default sys of None \<Rightarrow> tesseract_cmd sys | Some c \<Rightarrow> c)"
    if "\<not> usable sys (env_cmd sys)" "\<not> usable sys cmd_arg"
    using that assms
    by (auto simp: configure_tesseract_def candidates_def candidate_loop_cmd usable_def truthy_def
        find_defaults split: option.splits)
  from a b c show ?thesis by blast
qed

lemma ex_sys_env_eval:
  "pytesseract_loaded ex_sys_env"
  "env_cmd ex_sys_env = Some ''/e/tesseract''"
  "usable ex_sys_env (Some ''/e/tesseract'')"
  "usable ex_sys_env (Some ''/x/tesseract'')"
  by (simp_all add: ex_sys_env_def env_cmd_def py_or_def truthy_def usable_def)

lemma ex_sys_env_eval2:
  "pytesseract_loaded (ex_sys_env\<lparr>environ := Map.empty\<rparr>)"
  "\<not> usable (ex_sys_env\<lparr>environ := Map.empty\<rparr>) (env_cmd (ex_sys_env\<lparr>environ := Map.empty\<rparr>))"
  "usable (ex_sys_env\<lparr>environ := Map.empty\<rparr>) (Some ''/x/tesseract'')"
  "\<not> usable (ex_sys_env\<lparr>environ := Map.empty\<rparr>) None"
  "first_default (ex_sys_env\<lparr>environ := Map.empty\<rparr>) = Some ''/usr/bin/tesseract''"
  by (simp_all add: ex_sys_env_def env_cmd_def py_or_def truthy_def usable_def first_default_def
      windows_common_paths_def unix_common_paths_def win_path_def)

theorem configure_tesseract_priority_witness:
  "tesseract_cmd (configure_tesseract ex_sys_env (Some ''/x/tesseract'')) = ''/e/tesseract'' \<and>
   tesseract_cmd (configure_tesseract (ex_sys_env\<lparr>environ := Map.empty\<rparr>) (Some ''/x/tesseract'')) = ''/x/tesseract'' \<and>
   tesseract_cmd (configure_tesseract (ex_sys_env\<lparr>environ := Map.empty\<rparr>) None) = ''/usr/bin/tesseract''"
proof -
  note a = configure_tesseract_priority [OF ex_sys_env_eval(1), of "Some ''/x/tesseract''"]
  note b = configure_tesseract_priority [OF ex_sys_env_eval2(1), of "Some ''/x/tesseract''"]
  note c = configure_tesseract_priority [OF ex_sys_env_eval2(1), of None]
  from a have "tesseract_cmd (configure_tesseract ex_sys_env (Some ''/x/tesseract'')) = ''/e/tesseract''"
    by (simp add: ex_sys_env_eval)
  moreover from b have "tesseract_cmd (configure_tesseract (ex_sys_env\<lparr>environ := Map.empty\<rparr>) (Some ''/x/tesseract'')) = ''/x/tesseract''"
    by (simp add: ex_sys_env_eval2)
  moreover from c have "tesseract_cmd (configure_tesseract (ex_sys_env\<lparr>environ := Map.empty\<rparr>) None) = ''/usr/bin/tesseract''"
    by (simp add: ex_sys_env_eval2)
  ultimately show ?thesis by simp
qed

text \<open>
  The claim as stated fails: with an existing explicitly supplied path and an existing
  path in the environment, the environment's path is configured.
\<close>

theorem explicit_path_first_counterexample:
  "fs_exists ex_sys_env ''/x/tesseract'' \<and>
   tesseract_cmd (configure_tesseract ex_sys_env (Some ''/x/tesseract'')) = ''/e/tesseract'' \<and>
   tesseract_cmd (configure_tesseract ex_sys_env (Some ''/x/tesseract'')) \<noteq> ''/x/tesseract''"
  by (simp add: configure_tesseract_def candidates_def env_cmd_def py_or_def truthy_def
      ex_sys_env_def Let_def)

subsection \<open>The OCR trigger\<close>

text \<open>
  In \<open>convert_pdf\<close> the trigger of a page reads that page's own diagnostic, and the
  count it recomputes from the page text is the diagnostic's count.
\<close>

lemma trigger_reads_page_diagnostic:
  assumes "preflight doc = Inr diag" and "k < length (doc_pages doc)"
  shows "\<exists>d. page_diag_at diag (Suc k) = Some d \<and>
           preflight_page (Suc k) (doc_pages doc ! k) = Inr d \<and>
           non_ws_chars d = count_non_ws (py_strip (get_text (doc_pages doc ! k)))"
proof -
  obtain ds where ds: "preflight_loop 1 (doc_pages doc) = Inr ds"
    "length ds = length (doc_pages doc)"
    "\<forall>j<length (doc_pages doc). preflight_page (1 + j) (doc_pages doc ! j) = Inr (ds ! j)"
    using preflight_loop_total [of 1 "doc_pages doc"] by blast
  with assms(1) have "info_pages diag = ds" by (auto simp: preflight_def)
  with ds(2) assms(2) have at: "page_diag_at diag (Suc k) = Some (ds ! k)"
    by (simp add: page_diag_at_def)
  from ds(3) assms(2) have pd: "preflight_page (Suc k) (doc_pages doc ! k) = Inr (ds ! k)"
    by simp
  then have "Inr (ds ! k) = preflight_page (Suc k) (doc_pages doc ! k)" by simp
  then have "non_ws_chars (ds ! k) = count_non_ws (py_strip (get_text (doc_pages doc ! k)))"
    unfolding preflight_page_Inr by simp
  with at pd show ?thesis by blast
qed

text \<open>
  Claim C1. The per-page trigger is false in mode \<open>off\<close> and true in mode \<open>force\<close>,
  whatever the count and the diagnostic; in mode \<open>auto\<close> it is true exactly when the
  page has no native text block, or the count of non-white-space characters is strictly
  below \<open>th_nonws\<close>, or the image coverage is at least \<open>th_coverage\<close>.
\<close>

theorem need_ocr_decision:
  "(ocr_mode cfg = ''off'' \<longrightarrow> need_ocr cfg n pd = False) \<and>
   (ocr_mode cfg = ''force'' \<longrightarrow> need_ocr cfg n pd = True) \<and>
   (ocr_mode cfg = ''auto'' \<longrightarrow>
      need_ocr cfg n (Some d) =
        (\<not> has_text_block d \<or> int n < th_nonws cfg \<or> image_block_coverage d \<ge> th_coverage cfg))"
  by (simp add: need_ocr_def)

text \<open>
  With the default thresholds 20 and 0.7: a count equal to the threshold does not
  trigger, one below does, a coverage equal to the threshold does.
\<close>

theorem need_ocr_decision_witness:
  "need_ocr (ex_cfg ''off'') 0 None = False \<and>
   need_ocr (ex_cfg ''force'') 500 (Some (ex_diag True 500 (1 / 10))) = True \<and>
   need_ocr (ex_cfg ''auto'') 500 (Some (ex_diag True 500 (1 / 10))) = False \<and>
   need_ocr (ex_cfg ''auto'') 20 (Some (ex_diag True 20 (1 / 10))) = False \<and>
   need_ocr (ex_cfg ''auto'') 19 (Some (ex_diag True 19 (1 / 10))) = True \<and>
   need_ocr (ex_cfg ''auto'') 500 (Some (ex_diag True 500 (7 / 10))) = True \<and>
   need_ocr (ex_cfg ''auto'') 500 (Some (ex_diag False 500 (1 / 10))) = True"
  using need_ocr_decision [of "ex_cfg ''off''" 0 None]
    need_ocr_decision [of "ex_cfg ''force''" 500 "Some (ex_diag True 500 (1 / 10))"]
    need_ocr_decision [of "ex_cfg ''auto''" 500 _ "ex_diag True 500 (1 / 10)"]
    need_ocr_decision [of "ex_cfg ''auto''" 20 _ "ex_diag True 20 (1 / 10)"]
    need_ocr_decision [of "ex_cfg ''auto''" 19 _ "ex_diag True 19 (1 / 10)"]
    need_ocr_decision [of "ex_cfg ''auto''" 500 _ "ex_diag True 500 (7 / 10)"]
    need_ocr_decision [of "ex_cfg ''auto''" 500 _ "ex_diag False 500 (1 / 10)"]
  by (simp add: ex_cfg_def ex_diag_def)

text \<open>
  Claim C10. A mode that is neither \<open>force\<close> nor \<open>auto\<close> never triggers OCR: the
  decision is the one of \<open>off\<close>, and the page's record is the record of mode \<open>off\<close>
  but for the \<open>mode\<close> field, which echoes the configured string. The loop body has no
  branch that rejects the mode.
\<close>

theorem other_mode_is_off:
  assumes "ocr_mode cfg \<noteq> ''force''" and "ocr_mode cfg \<noteq> ''auto''"
  shows "need_ocr cfg n pd = False \<and>
         need_ocr cfg n pd = need_ocr (cfg\<lparr>ocr_mode := ''off''\<rparr>) n pd \<and>
         page_record cfg sys diag images tables engine i p =
           (let r = page_record (cfg\<lparr>ocr_mode := ''off''\<rparr>) sys diag images tables engine i p
            in r\<lparr>rec_ocr := (rec_ocr r)\<lparr>mode := Some (ocr_mode cfg)\<rparr>\<rparr>)"
  using assms by (simp add: need_ocr_def page_record_def Let_def)

theorem other_mode_is_off_witness:
  "ocr_mode (ex_cfg ''Auto'') \<noteq> ''force'' \<and> ocr_mode (ex_cfg ''Auto'') \<noteq> ''auto'' \<and>
   need_ocr (ex_cfg ''Auto'') 0 None = False \<and>
   need_ocr (ex_cfg ''Auto'') 0 None = need_ocr ((ex_cfg ''Auto'')\<lparr>ocr_mode := ''off''\<rparr>) 0 None"
proof -
  have a: "ocr_mode (ex_cfg ''Auto'') \<noteq> ''force''" and b: "ocr_mode (ex_cfg ''Auto'') \<noteq> ''auto''"
    by (simp_all add: ex_cfg_def)
  note r = other_mode_is_off [OF a b, of 0 None]
  from r [THEN conjunct1] r [THEN conjunct2, THEN conjunct1] a b show ?thesis by simp
qed

subsection \<open>OCR fallback and the record's OCR section\<close>

lemma ocr_page_unavailable:
  "\<not> engine_available sys \<Longrightarrow>
   ocr_page cfg sys i run =
     ([], meta0\<lparr>meta_error := Some (if \<not> pytesseract_loaded sys \<or> \<not> pil_loaded sys
                                      then ''pytesseract_or_pillow_not_available''
                                      else ''tesseract_not_found'')\<rparr>)"
  by (auto simp: ocr_page_def engine_available_def)

lemma ocr_page_available:
  "engine_available sys \<Longrightarrow>
   ocr_page cfg sys i run =
     (case run of
        EngineRaised msg \<Rightarrow> ([], meta0\<lparr>meta_error := Some msg\<rparr>)
      | EngineText t \<Rightarrow>
          (py_strip t,
           meta0\<lparr>meta_used := True, meta_lang := Some (ocr_lang cfg),
                 meta_dpi := Some (ocr_dpi cfg),
                 meta_txt := Some (ocr_file cfg i ''.txt''),
                 meta_tsv := Some (ocr_file cfg i ''.tsv''),
                 meta_hocr := Some (ocr_file cfg i ''.hocr'')\<rparr>))"
  by (auto simp: ocr_page_def ocr_try_def engine_available_def split: engine_run.splits)

text \<open>
  Claim C2, as amended. On a page where OCR is triggered while a library is missing or
  the binary is found neither on the search path nor as a file, the OCR step returns
  without an exception whatever the engine would do: the record keeps the native text,
  \<open>ocr.used\<close> is false, the artifact paths are null, and \<open>ocr.artifacts.error\<close> is
  \<open>pytesseract_or_pillow_not_available\<close> when a library is missing,
  \<open>tesseract_not_found\<close> otherwise.
\<close>

theorem ocr_unavailable_falls_back:
  assumes "need_ocr cfg (count_non_ws (py_strip (get_text p))) (page_diag_at diag i)"
      and "\<not> engine_available sys"
  shows "(let r = page_record cfg sys diag images tables engine i p in
            rec_text r = py_strip (get_text p) \<and>
            used (rec_ocr r) = False \<and>
            art_txt (artifacts (rec_ocr r)) = None \<and>
            art_tsv (artifacts (rec_ocr r)) = None \<and>
            art_hocr (artifacts (rec_ocr r)) = None \<and>
            art_error (artifacts (rec_ocr r)) =
              Some (if \<not> pytesseract_loaded sys \<or> \<not> pil_loaded sys
                    then ''pytesseract_or_pillow_not_available''
                    else ''tesseract_not_found''))"
  using assms by (simp add: page_record_def Let_def ocr_page_unavailable meta0_def)

lemma ex_force_eval:
  "need_ocr (ex_cfg ''force'') n pd"
  "\<not> engine_available (ex_sys False True)"
  "\<not> engine_available (ex_sys True False)"
  "engine_available (ex_sys True True)"
  "py_strip (get_text ex_text_page) = [72, 105]"
  by (simp_all add: need_ocr_def ex_cfg_def engine_available_def ex_sys_def ex_text_page_def
      py_strip_def py_isspace_def)

theorem ocr_unavailable_falls_back_witness:
  "rec_text (page_record (ex_cfg ''force'') (ex_sys False True) ex_info Map.empty Map.empty
      (ex_engine [79, 75]) 1 ex_text_page) = [72, 105] \<and>
   used (rec_ocr (page_record (ex_cfg ''force'') (ex_sys False True) ex_info Map.empty Map.empty
      (ex_engine [79, 75]) 1 ex_text_page)) = False \<and>
   art_error (artifacts (rec_ocr (page_record (ex_cfg ''force'') (ex_sys False True) ex_info
      Map.empty Map.empty (ex_engine [79, 75]) 1 ex_text_page))) =
     Some ''pytesseract_or_pillow_not_available'' \<and>
   art_error (artifacts (rec_ocr (page_record (ex_cfg ''force'') (ex_sys True False) ex_info
      Map.empty Map.empty (ex_engine [79, 75]) 1 ex_text_page))) =
     Some ''tesseract_not_found''"
proof -
  note a = ocr_unavailable_falls_back [where cfg = "ex_cfg ''force''" and sys = "ex_sys False True"
      and p = ex_text_page and diag = ex_info and i = 1 and images = Map.empty
      and tables = Map.empty and engine = "ex_engine [79, 75]",
      OF ex_force_eval(1) ex_force_eval(2)]
  note b = ocr_unavailable_falls_back [where cfg = "ex_cfg ''force''" and sys = "ex_sys True False"
      and p = ex_text_page and diag = ex_info and i = 1 and images = Map.empty
      and tables = Map.empty and engine = "ex_engine [79, 75]",
      OF ex_force_eval(1) ex_force_eval(3)]
  have l: "\<not> pytesseract_loaded (ex_sys False True)" "pytesseract_loaded (ex_sys True False)"
    "pil_loaded (ex_sys True False)"
    by (simp_all add: ex_sys_def)
  from a b show ?thesis by (simp add: Let_def ex_force_eval(5) l)
qed

text \<open>
  The claim as stated fails: with OCR forced and the libraries missing, and with the
  libraries present and no binary, the error is not \<open>engine_unavailable\<close>.
\<close>

theorem engine_unavailable_counterexample:
  "need_ocr (ex_cfg ''force'') (count_non_ws (py_strip (get_text ex_text_page))) (page_diag_at ex_info 1) \<and>
   \<not> pytesseract_loaded (ex_sys False True) \<and>
   art_error (artifacts (rec_ocr (page_record (ex_cfg ''force'') (ex_sys False True) ex_info
      Map.empty Map.empty (ex_engine [79, 75]) 1 ex_text_page))) \<noteq> Some ''engine_unavailable'' \<and>
   \<not> shutil_which (ex_sys True False) (tesseract_cmd (ex_sys True False)) \<and>
   \<not> fs_exists (ex_sys True False) (tesseract_cmd (ex_sys True False)) \<and>
   art_error (artifacts (rec_ocr (page_record (ex_cfg ''force'') (ex_sys True False) ex_info
      Map.empty Map.empty (ex_engine [79, 75]) 1 ex_text_page))) \<noteq> Some ''engine_unavailable''"
  by (simp add: page_record_def Let_def ex_force_eval ocr_page_unavailable meta0_def)
     (simp add: ex_sys_def)

text \<open>
  Claim C4. When OCR is triggered on a page and the recognized text is empty once
  stripped, the record's text is the native text and \<open>ocr.used\<close> is false; and
  \<open>ocr.used\<close> is true only when OCR was triggered, ran to the end and returned a text
  that is not empty once stripped, which is then the record's text.
\<close>

theorem empty_ocr_keeps_native:
  "(let r = page_record cfg sys diag images tables engine i p;
        need = need_ocr cfg (count_non_ws (py_strip (get_text p))) (page_diag_at diag i)
    in (need \<and> engine i = EngineText t \<and> py_strip t = [] \<longrightarrow>
          rec_text r = py_strip (get_text p) \<and> used (rec_ocr r) = False) \<and>
       (used (rec_ocr r) \<longrightarrow>
          need \<and> engine_available sys \<and>
          (case engine i of
             EngineRaised msg \<Rightarrow> False
           | EngineText t' \<Rightarrow> py_strip t' \<noteq> [] \<and> rec_text r = py_strip t')))"
proof (cases "engine_available sys")
  case True
  then show ?thesis
    by (auto simp: page_record_def Let_def ocr_page_available meta0_def split: engine_run.splits)
next
  case False
  then show ?thesis
    by (auto simp: page_record_def Let_def ocr_page_unavailable meta0_def)
qed

lemma ex_engine_eval:
  "ex_engine t i = EngineText t"
  "py_strip [32, 10] = []"
  "py_strip [79, 75] = [79, 75]"
  by (simp_all add: ex_engine_def py_strip_def py_isspace_def)

theorem empty_ocr_keeps_native_witness:
  "rec_text (page_record (ex_cfg ''force'') (ex_sys True True) ex_info Map.empty Map.empty
      (ex_engine [32, 10]) 1 ex_text_page) = [72, 105] \<and>
   used (rec_ocr (page_record (ex_cfg ''force'') (ex_sys True True) ex_info Map.empty Map.empty
      (ex_engine [32, 10]) 1 ex_text_page)) = False \<and>
   used (rec_ocr (page_record (ex_cfg ''force'') (ex_sys True True) ex_info Map.empty Map.empty
      (ex_engine [79, 75]) 1 ex_text_page)) = True \<and>
   rec_text (page_record (ex_cfg ''force'') (ex_sys True True) ex_info Map.empty Map.empty
      (ex_engine [79, 75]) 1 ex_text_page) = [79, 75]"
proof -
  note a = empty_ocr_keeps_native [where cfg = "ex_cfg ''force''" and sys = "ex_sys True True"
      and p = ex_text_page and diag = ex_info and i = 1 and images = Map.empty
      and tables = Map.empty and engine = "ex_engine [32, 10]" and t = "[32, 10]"]
  note b = empty_ocr_keeps_native [where cfg = "ex_cfg ''force''" and sys = "ex_sys True True"
      and p = ex_text_page and diag = ex_info and i = 1 and images = Map.empty
      and tables = Map.empty and engine = "ex_engine [79, 75]" and t = "[]"]
  have u: "used (rec_ocr (page_record (ex_cfg ''force'') (ex_sys True True) ex_info Map.empty
      Map.empty (ex_engine [79, 75]) 1 ex_text_page))"
    by (simp add: page_record_def Let_def ex_force_eval ocr_page_available meta0_def
        ex_engine_eval)
  from a have "rec_text (page_record (ex_cfg ''force'') (ex_sys True True) ex_info Map.empty
      Map.empty (ex_engine [32, 10]) 1 ex_text_page) = [72, 105] \<and>
    used (rec_ocr (page_record (ex_cfg ''force'') (ex_sys True True) ex_info Map.empty Map.empty
      (ex_engine [32, 10]) 1 ex_text_page)) = False"
    by (simp add: Let_def ex_force_eval ex_engine_eval)
  moreover from b u have "rec_text (page_record (ex_cfg ''force'') (ex_sys True True) ex_info
      Map.empty Map.empty (ex_engine [79, 75]) 1 ex_text_page) = [79, 75]"
    by (simp add: Let_def ex_force_eval ex_engine_eval)
  ultimately show ?thesis using u by simp
qed

text \<open>
  Claim C5, as amended. In every record, \<open>mode\<close> is the configured OCR mode. In a
  record whose \<open>ocr.used\<close> is false, \<open>lang\<close>, \<open>dpi\<close>, \<open>psm\<close>, \<open>oem\<close> and
  \<open>rotate\<close> are null; the artifact paths \<open>txt\<close>, \<open>tsv\<close>, \<open>hocr\<close> are null unless
  OCR was triggered and ran to the end on the page (its text then being empty once
  stripped), in which case they are the paths of the three files written.
\<close>

theorem unused_ocr_fields:
  "(let r = rec_ocr (page_record cfg sys diag images tables engine i p);
        need = need_ocr cfg (count_non_ws (py_strip (get_text p))) (page_diag_at diag i)
    in mode r = Some (ocr_mode cfg) \<and>
       (\<not> used r \<longrightarrow>
          lang r = None \<and> dpi r = None \<and> psm r = None \<and> oem r = None \<and> rotate_mode r = None \<and>
          (if need \<and> ocr_completed sys engine i
           then art_txt (artifacts r) = Some (ocr_file cfg i ''.txt'') \<and>
                art_tsv (artifacts r) = Some (ocr_file cfg i ''.tsv'') \<and>
                art_hocr (artifacts r) = Some (ocr_file cfg i ''.hocr'') \<and>
                art_error (artifacts r) = None
           else art_txt (artifacts r) = None \<and>
                art_tsv (artifacts r) = None \<and>
                art_hocr (artifacts r) = None)))"
proof (cases "engine_available sys")
  case True
  then show ?thesis
    by (auto simp: page_record_def Let_def ocr_page_available ocr_completed_def meta0_def
        split: engine_run.splits)
next
  case False
  then show ?thesis
    by (auto simp: page_record_def Let_def ocr_page_unavailable ocr_completed_def meta0_def)
qed

lemma ex_blank_ocr_eval:
  "rec_ocr (page_record (ex_cfg ''force'') (ex_sys True True) ex_info Map.empty Map.empty
      (ex_engine [32, 10]) (Suc 0) ex_text_page) =
     \<lparr>used = False, mode = Some ''force'', lang = None, dpi = None, psm = None, oem = None,
      rotate_mode = None,
      artifacts = \<lparr>art_txt = Some ''out/ocr/page1.txt'', art_tsv = Some ''out/ocr/page1.tsv'',
                   art_hocr = Some ''out/ocr/page1.hocr'', art_error = None\<rparr>\<rparr>"
  by (simp add: page_record_def Let_def ex_force_eval ocr_page_available meta0_def
      ex_engine_eval ocr_file_def path_join_def str_nat.simps)
     (simp add: ex_cfg_def)

theorem unused_ocr_fields_witness:
  "used (rec_ocr (page_record (ex_cfg ''force'') (ex_sys True True) ex_info Map.empty Map.empty
      (ex_engine [32, 10]) 1 ex_text_page)) = False \<and>
   lang (rec_ocr (page_record (ex_cfg ''force'') (ex_sys True True) ex_info Map.empty Map.empty
      (ex_engine [32, 10]) 1 ex_text_page)) = None \<and>
   rotate_mode (rec_ocr (page_record (ex_cfg ''force'') (ex_sys True True) ex_info Map.empty Map.empty
      (ex_engine [32, 10]) 1 ex_text_page)) = None \<and>
   art_txt (artifacts (rec_ocr (page_record (ex_cfg ''force'') (ex_sys True True) ex_info
      Map.empty Map.empty (ex_engine [32, 10]) 1 ex_text_page))) =
     Some (ocr_file (ex_cfg ''force'') 1 ''.txt'') \<and>
   used (rec_ocr (page_record (ex_cfg ''off'') (ex_sys True True) ex_info Map.empty Map.empty
      (ex_engine [32, 10]) 1 ex_text_page)) = False \<and>
   art_txt (artifacts (rec_ocr (page_record (ex_cfg ''off'') (ex_sys True True) ex_info
      Map.empty Map.empty (ex_engine [32, 10]) 1 ex_text_page))) = None"
proof -
  note a = unused_ocr_fields [where cfg = "ex_cfg ''force''" and sys = "ex_sys True True"
      and p = ex_text_page and diag = ex_info and i = 1 and images = Map.empty
      and tables = Map.empty and engine = "ex_engine [32, 10]"]
  note b = unused_ocr_fields [where cfg = "ex_cfg ''off''" and sys = "ex_sys True True"
      and p = ex_text_page and diag = ex_info and i = 1 and images = Map.empty
      and tables = Map.empty and engine = "ex_engine [32, 10]"]
  have u: "\<not> used (rec_ocr (page_record (ex_cfg ''force'') (ex_sys True True) ex_info Map.empty
      Map.empty (ex_engine [32, 10]) 1 ex_text_page))"
    by (simp add: ex_blank_ocr_eval)
  have v: "\<not> used (rec_ocr (page_record (ex_cfg ''off'') (ex_sys True True) ex_info Map.empty
      Map.empty (ex_engine [32, 10]) 1 ex_text_page))"
    "\<not> need_ocr (ex_cfg ''off'') n pd" for n pd
    by (simp_all add: page_record_def Let_def need_ocr_def ex_cfg_def)
  have c: "ocr_completed (ex_sys True True) (ex_engine [32, 10]) 1"
    by (simp add: ocr_completed_def ex_force_eval ex_engine_eval)
  from a u c have "lang (rec_ocr (page_record (ex_cfg ''force'') (ex_sys True True) ex_info
      Map.empty Map.empty (ex_engine [32, 10]) 1 ex_text_page)) = None \<and>
    rotate_mode (rec_ocr (page_record (ex_cfg ''force'') (ex_sys True True) ex_info Map.empty
      Map.empty (ex_engine [32, 10]) 1 ex_text_page)) = None \<and>
    art_txt (artifacts (rec_ocr (page_record (ex_cfg ''force'') (ex_sys True True) ex_info
      Map.empty Map.empty (ex_engine [32, 10]) 1 ex_text_page))) =
      Some (ocr_file (ex_cfg ''force'') 1 ''.txt'')"
    by (simp add: Let_def ex_force_eval)
  moreover from b v have "art_txt (artifacts (rec_ocr (page_record (ex_cfg ''off'')
      (ex_sys True True) ex_info Map.empty Map.empty (ex_engine [32, 10]) 1 ex_text_page))) = None"
    by (simp add: Let_def)
  ultimately show ?thesis using u v by simp
qed

text \<open>
  The claim as stated fails: with OCR forced, the engine present and a page whose
  recognized text is white space only, \<open>ocr.used\<close> is false while \<open>mode\<close> and the
  three artifact paths are set.
\<close>

theorem unused_fields_null_counterexample:
  "used (rec_ocr (page_record (ex_cfg ''force'') (ex_sys True True) ex_info Map.empty Map.empty
      (ex_engine [32, 10]) 1 ex_text_page)) = False \<and>
   mode (rec_ocr (page_record (ex_cfg ''force'') (ex_sys True True) ex_info Map.empty Map.empty
      (ex_engine [32, 10]) 1 ex_text_page)) = Some ''force'' \<and>
   art_txt (artifacts (rec_ocr (page_record (ex_cfg ''force'') (ex_sys True True) ex_info
      Map.empty Map.empty (ex_engine [32, 10]) 1 ex_text_page))) = Some ''out/ocr/page1.txt'' \<and>
   art_tsv (artifacts (rec_ocr (page_record (ex_cfg ''force'') (ex_sys True True) ex_info
      Map.empty Map.empty (ex_engine [32, 10]) 1 ex_text_page))) = Some ''out/ocr/page1.tsv'' \<and>
   art_hocr (artifacts (rec_ocr (page_record (ex_cfg ''force'') (ex_sys True True) ex_info
      Map.empty Map.empty (ex_engine [32, 10]) 1 ex_text_page))) = Some ''out/ocr/page1.hocr''"
  by (simp add: ex_blank_ocr_eval)

end
